theory Spec2Isabelle
  imports Complex_Main "HOL-Library.AList"
begin

section \<open>JavaScript numbers\<close>

text \<open>
  Every quantity of the calculator is a JavaScript \<^verbatim>\<open>number\<close>. A finite value is
  modelled by the real it denotes (rounding and overflow of the double format are not
  part of the model); \<open>NaN\<close> is kept as a value of its own, because arithmetic on
  \<^verbatim>\<open>undefined\<close> (a key missing from an object literal) produces it, it is absorbing
  for \<open>+\<close>, \<open>-\<close>, \<open>*\<close> and \<open>/\<close>, and every comparison with it is false.
\<close>

datatype number = Num real | NaN

instantiation number :: "{plus, minus, times, divide, ord}"
begin

fun plus_number :: "number \<Rightarrow> number \<Rightarrow> number" where
  "plus_number (Num a) (Num b) = Num (a + b)"
| "plus_number _ _ = NaN"

fun minus_number :: "number \<Rightarrow> number \<Rightarrow> number" where
  "minus_number (Num a) (Num b) = Num (a - b)"
| "minus_number _ _ = NaN"

fun times_number :: "number \<Rightarrow> number \<Rightarrow> number" where
  "times_number (Num a) (Num b) = Num (a * b)"
| "times_number _ _ = NaN"

text \<open>
  The program divides by the literal 100 and by \<^verbatim>\<open>annualSavings\<close> under the guard
  \<^verbatim>\<open>annualSavings > 0\<close> only, so a zero divisor (an infinity in JavaScript) is never
  reached; the model maps it to \<open>NaN\<close>.
\<close>

fun divide_number :: "number \<Rightarrow> number \<Rightarrow> number" where
  "divide_number (Num a) (Num b) = (if b = 0 then NaN else Num (a / b))"
| "divide_number _ _ = NaN"

fun less_number :: "number \<Rightarrow> number \<Rightarrow> bool" where
  "less_number (Num a) (Num b) = (a < b)"
| "less_number _ _ = False"

fun less_eq_number :: "number \<Rightarrow> number \<Rightarrow> bool" where
  "less_eq_number (Num a) (Num b) = (a \<le> b)"
| "less_eq_number _ _ = False"

instance ..

end

text \<open>The notation \<open>a / b\<close> belongs to this class; the program takes no inverse.\<close>

instantiation number :: inverse
begin

definition inverse_number :: "number \<Rightarrow> number" where
  "inverse_number x = divide (Num 1) x"

instance ..

end

text \<open>\<^verbatim>\<open>ToNumber\<close> of a property read: a missing key reads \<^verbatim>\<open>undefined\<close>, which is \<open>NaN\<close>.\<close>

fun toNumber :: "number option \<Rightarrow> number" where
  "toNumber (Some x) = x"
| "toNumber None = NaN"

text \<open>\<^verbatim>\<open>Math.round\<close>: the nearest integer, a tie going up.\<close>

fun mathRound :: "number \<Rightarrow> number" where
  "mathRound (Num x) = Num (of_int \<lfloor>x + 1 / 2\<rfloor>)"
| "mathRound NaN = NaN"

section \<open>Data model\<close>

record UserInput =
  weekdayCommuteKm :: number
  weekendTripKm :: number
  estimatedAnnualKm :: number
  priceGasoline :: number
  priceDiesel :: number
  priceLPG :: number
  priceElectricity :: number
  purchaseGasoline :: number
  purchaseDiesel :: number
  purchaseLPG :: number
  purchaseHEV :: number
  purchasePHEV :: number
  years :: number

text \<open>
  The display names \<^verbatim>\<open>'Gasolina'\<close>, \<^verbatim>\<open>'Diesel'\<close> (written with an accent in the source),
  \<^verbatim>\<open>'GLP'\<close>, \<^verbatim>\<open>'Hibrido (HEV)'\<close> and \<^verbatim>\<open>'Hibrido Enchufable (PHEV)'\<close>.
\<close>

datatype VehicleName = Gasolina | Diesel | GLP | HibridoHEV | HibridoEnchufablePHEV

text \<open>The keys \<^verbatim>\<open>'gasolina'\<close>, \<^verbatim>\<open>'diesel'\<close>, \<^verbatim>\<open>'glp'\<close>, \<^verbatim>\<open>'hibrido'\<close>, \<^verbatim>\<open>'phev'\<close>.\<close>

datatype FuelType = gasolina | diesel | glp | hibrido | phev

text \<open>The field \<^verbatim>\<open>type\<close> of the source is \<open>vtype\<close> here.\<close>

record FuelConsumptionData =
  vtype :: VehicleName
  fuelType :: FuelType
  cityConsumptionLiters :: number
  highwayConsumptionLiters :: number
  cityConsumptionKwh :: number

text \<open>The \<^verbatim>\<open>icon\<close> component of a result is presentation only and is left out.\<close>

record CalculationResult =
  name :: VehicleName
  totalCost :: number
  annualFuelCost :: number
  amortizationYears :: "number option"
  purchasePrice :: number
  annualKm :: number

datatype RoutePreset = Urban | Mixed | Highway

record PresetFractions =
  city :: number
  highway :: number

fun presetConfig :: "RoutePreset \<Rightarrow> PresetFractions" where
  "presetConfig Urban = \<lparr>city = Num 0.8, highway = Num 0.2\<rparr>"
| "presetConfig Mixed = \<lparr>city = Num 0.5, highway = Num 0.5\<rparr>"
| "presetConfig Highway = \<lparr>city = Num 0.2, highway = Num 0.8\<rparr>"

section \<open>The cost calculation of \<^verbatim>\<open>handleSubmit\<close>\<close>

text \<open>The annual distance and its city and highway parts: \<open>(annualKm, annualCityKm, annualHighwayKm)\<close>.\<close>

definition annualDistances :: "PresetFractions \<Rightarrow> UserInput \<Rightarrow> number \<times> number \<times> number" where
  "annualDistances preset ui =
     (if estimatedAnnualKm ui > Num 0 then
        (let annualKm = estimatedAnnualKm ui;
             annualCityKm = annualKm * city preset;
             annualHighwayKm = annualKm * highway preset
         in (annualKm, annualCityKm, annualHighwayKm))
      else
        (let weekdayCityKmPerTrip = weekdayCommuteKm ui * city preset;
             weekdayHighwayKmPerTrip = weekdayCommuteKm ui * highway preset;
             weekendCityKmTotal = weekendTripKm ui * city preset;
             weekendHighwayKmTotal = weekendTripKm ui * highway preset;
             annualCityKm = (weekdayCityKmPerTrip * Num 2 * Num 5 + weekendCityKmTotal) * Num 52;
             annualHighwayKm = (weekdayHighwayKmPerTrip * Num 2 * Num 5 + weekendHighwayKmTotal) * Num 52;
             annualKm = annualCityKm + annualHighwayKm
         in (annualKm, annualCityKm, annualHighwayKm)))"

fun purchasePrices :: "UserInput \<Rightarrow> FuelType \<Rightarrow> number" where
  "purchasePrices ui gasolina = purchaseGasoline ui"
| "purchasePrices ui diesel = purchaseDiesel ui"
| "purchasePrices ui glp = purchaseLPG ui"
| "purchasePrices ui hibrido = purchaseHEV ui"
| "purchasePrices ui phev = purchasePHEV ui"

text \<open>The object literal \<^verbatim>\<open>fuelPrices\<close> has three keys; the other two read \<^verbatim>\<open>undefined\<close>.\<close>

fun fuelPrices :: "UserInput \<Rightarrow> FuelType \<Rightarrow> number option" where
  "fuelPrices ui gasolina = Some (priceGasoline ui)"
| "fuelPrices ui diesel = Some (priceDiesel ui)"
| "fuelPrices ui glp = Some (priceLPG ui)"
| "fuelPrices ui hibrido = None"
| "fuelPrices ui phev = None"

definition carAnnualFuelCost :: "UserInput \<Rightarrow> number \<Rightarrow> number \<Rightarrow> FuelConsumptionData \<Rightarrow> number" where
  "carAnnualFuelCost ui annualCityKm annualHighwayKm car =
     (if fuelType car = phev then
        (let cityCost = (annualCityKm / Num 100) * cityConsumptionKwh car * priceElectricity ui;
             cityFuelCost = (annualCityKm / Num 100) * cityConsumptionLiters car * priceGasoline ui;
             highwayCost = (annualHighwayKm / Num 100) * highwayConsumptionLiters car * priceGasoline ui
         in cityCost + cityFuelCost + highwayCost)
      else
        (let cityCost = (annualCityKm / Num 100) * cityConsumptionLiters car
                          * toNumber (fuelPrices ui (fuelType car));
             highwayCost = (annualHighwayKm / Num 100) * highwayConsumptionLiters car
                          * toNumber (fuelPrices ui (fuelType car))
         in cityCost + highwayCost))"

text \<open>The callback of \<^verbatim>\<open>consumptionData.map\<close>.\<close>

definition carResult :: "UserInput \<Rightarrow> number \<Rightarrow> number \<Rightarrow> number \<Rightarrow> FuelConsumptionData \<Rightarrow> CalculationResult" where
  "carResult ui annualKm' annualCityKm annualHighwayKm car =
     (let annualFuelCost' = carAnnualFuelCost ui annualCityKm annualHighwayKm car;
          purchasePrice' = purchasePrices ui (fuelType car);
          totalCost' = purchasePrice' + (annualFuelCost' * years ui)
      in \<lparr>name = vtype car, totalCost = totalCost', annualFuelCost = annualFuelCost',
          amortizationYears = None, purchasePrice = purchasePrice', annualKm = annualKm'\<rparr>)"

text \<open>The callback of \<^verbatim>\<open>calculatedResults.forEach\<close>, run when a gasoline result was found.\<close>

definition amortize :: "CalculationResult \<Rightarrow> CalculationResult \<Rightarrow> CalculationResult" where
  "amortize gasolineCar result =
     (if name result \<noteq> Gasolina \<and> purchasePrice result > purchasePrice gasolineCar then
        (let annualSavings = annualFuelCost gasolineCar - annualFuelCost result
         in if annualSavings > Num 0
            then result\<lparr>amortizationYears :=
                   Some ((purchasePrice result - purchasePrice gasolineCar) / annualSavings)\<rparr>
            else result)
      else result)"

text \<open>
  \<^verbatim>\<open>sort((a, b) => a.totalCost - b.totalCost)\<close>. The language turns a comparator value
  \<open>NaN\<close> into \<open>+0\<close>, and sorts stably when the comparator is consistent; the
  order is left to the implementation otherwise. The model is the stable insertion sort:
  it is the order of the program when no total is \<open>NaN\<close>, and one possible order,
  which an engine need not produce, when one is.
\<close>

fun sortCompare :: "CalculationResult \<Rightarrow> CalculationResult \<Rightarrow> real" where
  "sortCompare a b = (case totalCost a - totalCost b of Num v \<Rightarrow> v | NaN \<Rightarrow> 0)"

fun insertByCost :: "CalculationResult \<Rightarrow> CalculationResult list \<Rightarrow> CalculationResult list" where
  "insertByCost x [] = [x]"
| "insertByCost x (y # ys) = (if sortCompare x y \<le> 0 then x # y # ys else y # insertByCost x ys)"

fun sortByCost :: "CalculationResult list \<Rightarrow> CalculationResult list" where
  "sortByCost [] = []"
| "sortByCost (x # xs) = insertByCost x (sortByCost xs)"

definition calculatedResults :: "RoutePreset \<Rightarrow> UserInput \<Rightarrow> FuelConsumptionData list \<Rightarrow> CalculationResult list" where
  "calculatedResults routePreset' ui consumptionData =
     (case annualDistances (presetConfig routePreset') ui of
        (annualKm', annualCityKm, annualHighwayKm) \<Rightarrow>
          map (carResult ui annualKm' annualCityKm annualHighwayKm) consumptionData)"

text \<open>The search for the gasoline result and the \<^verbatim>\<open>forEach\<close> it guards.\<close>

definition amortizeAll :: "CalculationResult list \<Rightarrow> CalculationResult list" where
  "amortizeAll rs =
     (case find (\<lambda>r. name r = Gasolina) rs of
        None \<Rightarrow> rs
      | Some gasolineCar \<Rightarrow> map (amortize gasolineCar) rs)"

text \<open>The results handed to \<^verbatim>\<open>setResults\<close>.\<close>

definition calculate :: "RoutePreset \<Rightarrow> UserInput \<Rightarrow> FuelConsumptionData list \<Rightarrow> CalculationResult list" where
  "calculate routePreset' ui consumptionData =
     sortByCost (amortizeAll (calculatedResults routePreset' ui consumptionData))"

text \<open>\<^verbatim>\<open>results ? results[0] : null\<close>; reading index 0 of an empty array gives no result.\<close>

definition bestResult :: "CalculationResult list option \<Rightarrow> CalculationResult option" where
  "bestResult results' =
     (case results' of None \<Rightarrow> None | Some [] \<Rightarrow> None | Some (r # _) \<Rightarrow> Some r)"

text \<open>The initial form values of the application.\<close>

definition defaultInput :: UserInput where
  "defaultInput =
     \<lparr>weekdayCommuteKm = Num 25, weekendTripKm = Num 150, estimatedAnnualKm = Num 0,
      priceGasoline = Num 1.6, priceDiesel = Num 1.5, priceLPG = Num 0.9,
      priceElectricity = Num 0.2,
      purchaseGasoline = Num 25000, purchaseDiesel = Num 27000, purchaseLPG = Num 26000,
      purchaseHEV = Num 30000, purchasePHEV = Num 35000, years = Num 7\<rparr>"

text \<open>
  A sample answer of the consumption data provider. The gasoline and plug-in figures are
  those of the specification's scenarios.
\<close>

definition sampleGasolina :: FuelConsumptionData where
  "sampleGasolina = \<lparr>vtype = Gasolina, fuelType = gasolina, cityConsumptionLiters = Num 7,
     highwayConsumptionLiters = Num 5.5, cityConsumptionKwh = Num 0\<rparr>"

definition sampleDiesel :: FuelConsumptionData where
  "sampleDiesel = \<lparr>vtype = Diesel, fuelType = diesel, cityConsumptionLiters = Num 6,
     highwayConsumptionLiters = Num 4.5, cityConsumptionKwh = Num 0\<rparr>"

definition sampleGLP :: FuelConsumptionData where
  "sampleGLP = \<lparr>vtype = GLP, fuelType = glp, cityConsumptionLiters = Num 9,
     highwayConsumptionLiters = Num 7, cityConsumptionKwh = Num 0\<rparr>"

definition sampleHEV :: FuelConsumptionData where
  "sampleHEV = \<lparr>vtype = HibridoHEV, fuelType = hibrido, cityConsumptionLiters = Num 4.5,
     highwayConsumptionLiters = Num 5.5, cityConsumptionKwh = Num 0\<rparr>"

definition samplePHEV :: FuelConsumptionData where
  "samplePHEV = \<lparr>vtype = HibridoEnchufablePHEV, fuelType = phev, cityConsumptionLiters = Num 1.5,
     highwayConsumptionLiters = Num 5, cityConsumptionKwh = Num 15\<rparr>"

section \<open>The form: validation, submission, route estimation\<close>

text \<open>The keys of \<^verbatim>\<open>UserInput\<close>, and the read \<^verbatim>\<open>userInput[field]\<close>.\<close>

datatype Field =
    F_weekdayCommuteKm | F_weekendTripKm | F_estimatedAnnualKm
  | F_priceGasoline | F_priceDiesel | F_priceLPG | F_priceElectricity
  | F_purchaseGasoline | F_purchaseDiesel | F_purchaseLPG | F_purchaseHEV | F_purchasePHEV
  | F_years

fun fieldValue :: "UserInput \<Rightarrow> Field \<Rightarrow> number" where
  "fieldValue ui F_weekdayCommuteKm = weekdayCommuteKm ui"
| "fieldValue ui F_weekendTripKm = weekendTripKm ui"
| "fieldValue ui F_estimatedAnnualKm = estimatedAnnualKm ui"
| "fieldValue ui F_priceGasoline = priceGasoline ui"
| "fieldValue ui F_priceDiesel = priceDiesel ui"
| "fieldValue ui F_priceLPG = priceLPG ui"
| "fieldValue ui F_priceElectricity = priceElectricity ui"
| "fieldValue ui F_purchaseGasoline = purchaseGasoline ui"
| "fieldValue ui F_purchaseDiesel = purchaseDiesel ui"
| "fieldValue ui F_purchaseLPG = purchaseLPG ui"
| "fieldValue ui F_purchaseHEV = purchaseHEV ui"
| "fieldValue ui F_purchasePHEV = purchasePHEV ui"
| "fieldValue ui F_years = years ui"

text \<open>
  The messages of the form, in the order of the constructors: \<^verbatim>\<open>Debe ser un valor positivo.\<close>,
  \<^verbatim>\<open>No puede ser un valor negativo.\<close>, \<^verbatim>\<open>Debe ser al menos 1 ano.\<close>,
  \<^verbatim>\<open>Por favor, introduce la direccion de casa y del trabajo.\<close>, and the message of a
  failed external call.
\<close>

datatype Message =
  MustBePositive | CannotBeNegative | AtLeastOneYear | AddressesMissing | ExternalFailure string

definition positiveFields :: "Field list" where
  "positiveFields =
     [F_priceGasoline, F_priceDiesel, F_priceLPG, F_priceElectricity,
      F_purchaseGasoline, F_purchaseDiesel, F_purchaseLPG, F_purchaseHEV, F_purchasePHEV]"

definition nonNegativeFields :: "Field list" where
  "nonNegativeFields = [F_weekdayCommuteKm, F_weekendTripKm, F_estimatedAnnualKm]"

text \<open>The object \<^verbatim>\<open>errors\<close> that \<^verbatim>\<open>validateForm\<close> builds, as an association list.\<close>

definition validationErrors :: "UserInput \<Rightarrow> (Field \<times> Message) list" where
  "validationErrors ui =
     (let errors = [];
          errors = fold (\<lambda>field errors.
                     if fieldValue ui field \<le> Num 0
                     then AList.update field MustBePositive errors else errors)
                   positiveFields errors;
          errors = fold (\<lambda>field errors.
                     if fieldValue ui field < Num 0
                     then AList.update field CannotBeNegative errors else errors)
                   nonNegativeFields errors;
          errors = (if years ui < Num 1
                    then AList.update F_years AtLeastOneYear errors else errors)
      in errors)"

text \<open>
  The state of the component. The chart data, derived from the results for display, is
  left out.
\<close>

record AppState =
  userInput :: UserInput
  results :: "CalculationResult list option"
  recommendation :: "string option"
  isLoading :: bool
  error :: "Message option"
  formErrors :: "(Field \<times> Message) list"
  isCalculatingRoute :: bool
  routePreset :: RoutePreset
  homeAddress :: string
  workAddress :: string

definition initialState :: AppState where
  "initialState =
     \<lparr>userInput = defaultInput, results = None, recommendation = None, isLoading = False,
      error = None, formErrors = [], isCalculatingRoute = False, routePreset = Mixed,
      homeAddress = [], workAddress = []\<rparr>"

text \<open>\<^verbatim>\<open>validateForm\<close> stores the errors and answers whether there are none.\<close>

definition validateForm :: "AppState \<Rightarrow> bool \<times> AppState" where
  "validateForm st =
     (let errors = validationErrors (userInput st)
      in (length (map fst errors) = 0, st\<lparr>formErrors := errors\<rparr>))"

text \<open>
  The calls to the external services. A handler is given the outcome each call would have
  (\<open>Inl\<close> the message of a failure) and returns the new state with the calls it made,
  in order.
\<close>

datatype ExternalCall = GetFuelConsumptionData | GetRecommendation | GetRouteDetails

definition handleSubmit ::
  "Message + FuelConsumptionData list \<Rightarrow> Message + string \<Rightarrow> AppState
     \<Rightarrow> AppState \<times> ExternalCall list" where
  "handleSubmit fetched advice st =
     (case validateForm st of
        (False, st1) \<Rightarrow> (st1, [])
      | (True, st1) \<Rightarrow>
          (let st2 = st1\<lparr>isLoading := True, error := None, results := None,
                        recommendation := None\<rparr>
           in case fetched of
                Inl msg \<Rightarrow>
                  (st2\<lparr>error := Some msg, isLoading := False\<rparr>, [GetFuelConsumptionData])
              | Inr consumptionData \<Rightarrow>
                  (let sortedResults = calculate (routePreset st2) (userInput st2) consumptionData;
                       st3 = st2\<lparr>results := Some sortedResults\<rparr>
                   in case advice of
                        Inl msg \<Rightarrow>
                          (st3\<lparr>error := Some msg, isLoading := False\<rparr>,
                           [GetFuelConsumptionData, GetRecommendation])
                      | Inr geminiRecommendation \<Rightarrow>
                          (st3\<lparr>recommendation := Some geminiRecommendation,
                              isLoading := False\<rparr>,
                           [GetFuelConsumptionData, GetRecommendation]))))"

definition handleRouteCalculation ::
  "Message + number \<times> number \<Rightarrow> AppState \<Rightarrow> AppState \<times> ExternalCall list" where
  "handleRouteCalculation route st =
     (if homeAddress st = [] \<or> workAddress st = [] then
        (st\<lparr>error := Some AddressesMissing\<rparr>, [])
      else
        (let st1 = st\<lparr>isCalculatingRoute := True, error := None\<rparr>
         in case route of
              Inr (distance, cityPercentage) \<Rightarrow>
                (let st2 = st1\<lparr>userInput :=
                              (userInput st1)\<lparr>weekdayCommuteKm := mathRound distance\<rparr>\<rparr>;
                     st3 = (if cityPercentage \<ge> Num 70 then st2\<lparr>routePreset := Urban\<rparr>
                            else if cityPercentage \<le> Num 30 then st2\<lparr>routePreset := Highway\<rparr>
                            else st2\<lparr>routePreset := Mixed\<rparr>)
                 in (st3\<lparr>isCalculatingRoute := False\<rparr>, [GetRouteDetails]))
            | Inl msg \<Rightarrow>
                (st1\<lparr>error := Some msg, isCalculatingRoute := False\<rparr>, [GetRouteDetails])))"


subsection \<open>The form as the browser submits it\<close>

text \<open>
  Every key of \<^verbatim>\<open>UserInput\<close> is edited through an \<^verbatim>\<open>InputField\<close> of type number, which
  renders \<^verbatim>\<open><input type="number" step=... min=0 value=...>\<close>: the step is the one
  given where the field is used (0.01 for the four prices, 500 for the five purchase prices)
  and the default 1 otherwise, the horizon included.
\<close>

definition allFields :: "Field list" where
  "allFields =
     [F_weekdayCommuteKm, F_weekendTripKm, F_estimatedAnnualKm, F_years,
      F_priceGasoline, F_priceDiesel, F_priceLPG, F_priceElectricity,
      F_purchaseGasoline, F_purchaseDiesel, F_purchaseLPG, F_purchaseHEV, F_purchasePHEV]"

fun stepOf :: "Field \<Rightarrow> real" where
  "stepOf F_priceGasoline = 0.01"
| "stepOf F_priceDiesel = 0.01"
| "stepOf F_priceLPG = 0.01"
| "stepOf F_priceElectricity = 0.01"
| "stepOf F_purchaseGasoline = 500"
| "stepOf F_purchaseDiesel = 500"
| "stepOf F_purchaseLPG = 500"
| "stepOf F_purchaseHEV = 500"
| "stepOf F_purchasePHEV = 500"
| "stepOf _ = 1"

text \<open>
  Constraint validation of a number input with minimum 0 and the given step: a value below
  the minimum underflows, a value that is not the minimum plus a whole number of steps
  mismatches the step. An input showing no number (the state holds \<open>NaN\<close>) is empty and,
  not being required, satisfies its constraints.
\<close>

fun inputValid :: "real \<Rightarrow> number \<Rightarrow> bool" where
  "inputValid step (Num v) = (0 \<le> v \<and> of_int \<lfloor>v / step\<rfloor> * step = v)"
| "inputValid step NaN = True"

definition formValid :: "AppState \<Rightarrow> bool" where
  "formValid st = list_all (\<lambda>f. inputValid (stepOf f) (fieldValue (userInput st) f)) allFields"

text \<open>
  The submit button is disabled while \<^verbatim>\<open>isLoading\<close>, and the form has no
  \<^verbatim>\<open>noValidate\<close>: the browser fires the submit event, which runs \<^verbatim>\<open>handleSubmit\<close>,
  only when every input satisfies its constraints.
\<close>

definition submitForm ::
  "Message + FuelConsumptionData list \<Rightarrow> Message + string \<Rightarrow> AppState
     \<Rightarrow> AppState \<times> ExternalCall list" where
  "submitForm fetched advice st =
     (if isLoading st \<or> \<not> formValid st then (st, [])
      else handleSubmit fetched advice st)"

text \<open>The write \<^verbatim>\<open>{ ...prev, [name]: v }\<close>.\<close>

fun setField :: "Field \<Rightarrow> number \<Rightarrow> UserInput \<Rightarrow> UserInput" where
  "setField F_weekdayCommuteKm v ui = ui\<lparr>weekdayCommuteKm := v\<rparr>"
| "setField F_weekendTripKm v ui = ui\<lparr>weekendTripKm := v\<rparr>"
| "setField F_estimatedAnnualKm v ui = ui\<lparr>estimatedAnnualKm := v\<rparr>"
| "setField F_priceGasoline v ui = ui\<lparr>priceGasoline := v\<rparr>"
| "setField F_priceDiesel v ui = ui\<lparr>priceDiesel := v\<rparr>"
| "setField F_priceLPG v ui = ui\<lparr>priceLPG := v\<rparr>"
| "setField F_priceElectricity v ui = ui\<lparr>priceElectricity := v\<rparr>"
| "setField F_purchaseGasoline v ui = ui\<lparr>purchaseGasoline := v\<rparr>"
| "setField F_purchaseDiesel v ui = ui\<lparr>purchaseDiesel := v\<rparr>"
| "setField F_purchaseLPG v ui = ui\<lparr>purchaseLPG := v\<rparr>"
| "setField F_purchaseHEV v ui = ui\<lparr>purchaseHEV := v\<rparr>"
| "setField F_purchasePHEV v ui = ui\<lparr>purchasePHEV := v\<rparr>"
| "setField F_years v ui = ui\<lparr>years := v\<rparr>"

text \<open>\<^verbatim>\<open>parseFloat(value) || 0\<close>, given what \<^verbatim>\<open>parseFloat\<close> returned: \<open>NaN\<close> and 0 give 0.\<close>

fun orZero :: "number \<Rightarrow> number" where
  "orZero (Num v) = Num v"
| "orZero NaN = Num 0"

text \<open>
  A change event of a number input, with the key of its field and the result of
  \<^verbatim>\<open>parseFloat\<close> on its text, or of one of the two address inputs, with its text.
\<close>

datatype InputEvent =
  NumberInput Field number | HomeAddressInput string | WorkAddressInput string

fun handleInputChange :: "InputEvent \<Rightarrow> AppState \<Rightarrow> AppState" where
  "handleInputChange (NumberInput field parsed) st =
     (let st1 = (if map_of (formErrors st) field \<noteq> None
                 then st\<lparr>formErrors := AList.delete field (formErrors st)\<rparr> else st)
      in st1\<lparr>userInput := setField field (orZero parsed) (userInput st1)\<rparr>)"
| "handleInputChange (HomeAddressInput text) st = st\<lparr>homeAddress := text\<rparr>"
| "handleInputChange (WorkAddressInput text) st = st\<lparr>workAddress := text\<rparr>"

text \<open>
  What a user can do with the page: edit an input, pick a route preset, press the route
  button (disabled while \<^verbatim>\<open>isCalculatingRoute\<close>), submit the form. A session is a
  sequence of such actions from the initial state.
\<close>

datatype Action =
    Change InputEvent
  | SelectPreset RoutePreset
  | EstimateRoute "Message + number \<times> number"
  | Submit "Message + FuelConsumptionData list" "Message + string"

fun perform :: "Action \<Rightarrow> AppState \<Rightarrow> AppState \<times> ExternalCall list" where
  "perform (Change ev) st = (handleInputChange ev st, [])"
| "perform (SelectPreset preset) st = (st\<lparr>routePreset := preset\<rparr>, [])"
| "perform (EstimateRoute route) st =
     (if isCalculatingRoute st then (st, []) else handleRouteCalculation route st)"
| "perform (Submit fetched advice) st = submitForm fetched advice st"

definition session :: "Action list \<Rightarrow> AppState" where
  "session actions = fold (\<lambda>a st. fst (perform a st)) actions initialState"

text \<open>Non-decreasing order of total cost, with the comparison of the language.\<close>

definition sortedByTotalCost :: "CalculationResult list \<Rightarrow> bool" where
  "sortedByTotalCost rs = sorted_wrt (\<lambda>a b. totalCost a \<le> totalCost b) rs"

section \<open>Basic facts\<close>

lemmas eval_defs = calculate_def calculatedResults_def amortizeAll_def amortize_def carResult_def
  carAnnualFuelCost_def annualDistances_def defaultInput_def sampleGasolina_def
  sampleDiesel_def sampleGLP_def sampleHEV_def samplePHEV_def Let_def

lemmas form_defs = handleSubmit_def validateForm_def validationErrors_def positiveFields_def
  nonNegativeFields_def initialState_def

lemmas session_defs = session_def submitForm_def formValid_def allFields_def

lemma number_gt_diff: "(a - b > Num 0) = (a > (b::number))"
  by (cases a; cases b) auto

lemma set_insertByCost: "set (insertByCost x xs) = insert x (set xs)"
  by (induction xs) auto

lemma set_sortByCost: "set (sortByCost xs) = set xs"
  by (induction xs) (auto simp: set_insertByCost)

lemma amortize_fields:
  "name (amortize g r) = name r" "totalCost (amortize g r) = totalCost r"
  "annualFuelCost (amortize g r) = annualFuelCost r"
  "purchasePrice (amortize g r) = purchasePrice r"
  "annualKm (amortize g r) = annualKm r"
  by (simp_all add: amortize_def Let_def)

lemma amortizeAll_elem:
  "r \<in> set (amortizeAll rs) \<Longrightarrow>
     \<exists>r0 \<in> set rs. name r = name r0 \<and> totalCost r = totalCost r0 \<and>
        annualFuelCost r = annualFuelCost r0 \<and> purchasePrice r = purchasePrice r0 \<and>
        annualKm r = annualKm r0"
  by (auto simp: amortizeAll_def amortize_fields split: option.splits)

text \<open>Every result comes from one consumption record, whose figures it keeps.\<close>

lemma calculate_elem:
  assumes "r \<in> set (calculate p ui data)"
  obtains car k c h where "car \<in> set data" "annualDistances (presetConfig p) ui = (k, c, h)"
    "name r = vtype car" "totalCost r = totalCost (carResult ui k c h car)"
    "annualFuelCost r = annualFuelCost (carResult ui k c h car)"
    "purchasePrice r = purchasePrice (carResult ui k c h car)"
    "annualKm r = k"
proof -
  obtain k c h where d: "annualDistances (presetConfig p) ui = (k, c, h)"
    by (cases "annualDistances (presetConfig p) ui") auto
  from assms have "r \<in> set (amortizeAll (map (carResult ui k c h) data))"
    by (simp add: calculate_def set_sortByCost calculatedResults_def d)
  from amortizeAll_elem[OF this] obtain car where "car \<in> set data"
    "name r = name (carResult ui k c h car)" "totalCost r = totalCost (carResult ui k c h car)"
    "annualFuelCost r = annualFuelCost (carResult ui k c h car)"
    "purchasePrice r = purchasePrice (carResult ui k c h car)"
    "annualKm r = annualKm (carResult ui k c h car)"
    by auto
  then show thesis using d that[of car k c h] by (simp add: carResult_def Let_def)
qed

section \<open>Total cost of ownership\<close>

text \<open>
  C4. Every result has \<open>totalCost = purchasePrice + annualFuelCost * years\<close>. In the
  scenario of the initial form values (commute 25 km, weekend trip 150 km, mixed preset,
  7 years, gasoline at 1.6, purchase price 25000) and a gasoline consumption of 7 and 5.5
  litres per 100 km, the annual distance is 20800 km, 10400 km of it in the city and 10400 km
  on the highway, the annual fuel cost is 2080 and the total cost is 39560.
\<close>

theorem total_cost_formula:
  "(\<forall>r \<in> set (calculate p ui data).
       totalCost r = purchasePrice r + annualFuelCost r * years ui)
   \<and> annualDistances (presetConfig Mixed) defaultInput = (Num 20800, Num 10400, Num 10400)
   \<and> calculate Mixed defaultInput [sampleGasolina]
      = [\<lparr>name = Gasolina, totalCost = Num 39560, annualFuelCost = Num 2080,
          amortizationYears = None, purchasePrice = Num 25000, annualKm = Num 20800\<rparr>]"
proof (intro conjI ballI)
  fix r assume "r \<in> set (calculate p ui data)"
  then show "totalCost r = purchasePrice r + annualFuelCost r * years ui"
    by (elim calculate_elem) (simp add: carResult_def Let_def)
next
  show "annualDistances (presetConfig Mixed) defaultInput = (Num 20800, Num 10400, Num 10400)"
    by (simp add: annualDistances_def defaultInput_def Let_def)
next
  show "calculate Mixed defaultInput [sampleGasolina]
      = [\<lparr>name = Gasolina, totalCost = Num 39560, annualFuelCost = Num 2080,
          amortizationYears = None, purchasePrice = Num 25000, annualKm = Num 20800\<rparr>]"
    by (simp add: calculate_def calculatedResults_def amortizeAll_def amortize_def carResult_def
        carAnnualFuelCost_def annualDistances_def defaultInput_def sampleGasolina_def Let_def)
qed

theorem total_cost_formula_witness:
  "hd (calculate Mixed defaultInput [sampleGasolina, sampleDiesel])
     \<in> set (calculate Mixed defaultInput [sampleGasolina, sampleDiesel])
   \<and> name (hd (calculate Mixed defaultInput [sampleGasolina, sampleDiesel])) = Diesel
   \<and> totalCost (hd (calculate Mixed defaultInput [sampleGasolina, sampleDiesel]))
       = purchasePrice (hd (calculate Mixed defaultInput [sampleGasolina, sampleDiesel]))
         + annualFuelCost (hd (calculate Mixed defaultInput [sampleGasolina, sampleDiesel]))
           * years defaultInput
   \<and> totalCost (hd (calculate Mixed defaultInput [sampleGasolina, sampleDiesel])) = Num 38466"
proof -
  have "map name (calculate Mixed defaultInput [sampleGasolina, sampleDiesel]) = [Diesel, Gasolina]
      \<and> map totalCost (calculate Mixed defaultInput [sampleGasolina, sampleDiesel])
          = [Num 38466, Num 39560]"
    by (simp add: calculate_def calculatedResults_def amortizeAll_def amortize_def carResult_def
        carAnnualFuelCost_def annualDistances_def defaultInput_def sampleGasolina_def
        sampleDiesel_def Let_def)
  then show ?thesis
    using total_cost_formula [of Mixed defaultInput "[sampleGasolina, sampleDiesel]"]
    by (cases "calculate Mixed defaultInput [sampleGasolina, sampleDiesel]") auto
qed

section \<open>Annual distance\<close>

text \<open>
  C2. When the explicit annual total is strictly positive, the city and highway distances are
  that total times the city and highway fractions of the active preset (urban 0.8 and 0.2,
  mixed 0.5 and 0.5, highway 0.2 and 0.8). Otherwise the city distance is
  \<open>(commute * fraction * 2 * 5 + weekend * fraction) * 52\<close>, likewise the highway
  distance, and the annual distance is their sum. So a change of the explicit total from 0
  to a positive value changes the split from the derived one to the proportional one.
\<close>

theorem annual_distance_split:
  "(estimatedAnnualKm ui > Num 0 \<longrightarrow>
      annualDistances (presetConfig p) ui =
        (estimatedAnnualKm ui,
         estimatedAnnualKm ui * city (presetConfig p),
         estimatedAnnualKm ui * highway (presetConfig p)))
   \<and> (\<not> estimatedAnnualKm ui > Num 0 \<longrightarrow>
      (\<exists>annualCityKm annualHighwayKm.
         annualCityKm = (weekdayCommuteKm ui * city (presetConfig p) * Num 2 * Num 5
                          + weekendTripKm ui * city (presetConfig p)) * Num 52 \<and>
         annualHighwayKm = (weekdayCommuteKm ui * highway (presetConfig p) * Num 2 * Num 5
                          + weekendTripKm ui * highway (presetConfig p)) * Num 52 \<and>
         annualDistances (presetConfig p) ui
           = (annualCityKm + annualHighwayKm, annualCityKm, annualHighwayKm)))
   \<and> (city (presetConfig p), highway (presetConfig p))
       = (case p of Urban \<Rightarrow> (Num 0.8, Num 0.2) | Mixed \<Rightarrow> (Num 0.5, Num 0.5)
          | Highway \<Rightarrow> (Num 0.2, Num 0.8))"
  by (cases p) (simp_all add: annualDistances_def Let_def)

theorem annual_distance_split_witness:
  "annualDistances (presetConfig Urban) defaultInput = (Num 20800, Num 16640, Num 4160)
   \<and> annualDistances (presetConfig Urban) (defaultInput\<lparr>estimatedAnnualKm := Num 15000\<rparr>)
       = (Num 15000, Num 12000, Num 3000)"
  using annual_distance_split [of defaultInput Urban]
    annual_distance_split [of "defaultInput\<lparr>estimatedAnnualKm := Num 15000\<rparr>" Urban]
  by (simp add: defaultInput_def)

section \<open>Annual fuel cost\<close>

text \<open>
  C3. For a plug-in hybrid record the annual fuel cost is the sum of the electric city cost,
  the residual gasoline city cost and the gasoline highway cost. With 10400 km in the city
  and 10400 km on the highway, 1.5 litres and 15 kWh per 100 km in the city, 5 litres per
  100 km on the highway, electricity at 0.2 and gasoline at 1.6, the annual cost is 1393.6.
\<close>

theorem phev_annual_cost:
  "(fuelType car = phev \<longrightarrow>
      annualFuelCost (carResult ui k annualCityKm annualHighwayKm car)
        = annualCityKm / Num 100 * cityConsumptionKwh car * priceElectricity ui
          + annualCityKm / Num 100 * cityConsumptionLiters car * priceGasoline ui
          + annualHighwayKm / Num 100 * highwayConsumptionLiters car * priceGasoline ui)
   \<and> annualFuelCost (carResult defaultInput (Num 20800) (Num 10400) (Num 10400) samplePHEV)
       = Num 1393.6
   \<and> map annualFuelCost (calculate Mixed defaultInput [samplePHEV]) = [Num 1393.6]"
  by (simp add: carResult_def carAnnualFuelCost_def Let_def defaultInput_def samplePHEV_def
      calculate_def calculatedResults_def amortizeAll_def annualDistances_def)

theorem phev_annual_cost_witness:
  "fuelType samplePHEV = phev
   \<and> annualFuelCost (carResult defaultInput (Num 20800) (Num 10400) (Num 10400) samplePHEV)
       = Num 312 + Num 249.6 + Num 832"
  using phev_annual_cost [of samplePHEV defaultInput "Num 20800" "Num 10400" "Num 10400"]
  by (simp add: samplePHEV_def defaultInput_def)

text \<open>
  A record whose fuel has an entry in \<^verbatim>\<open>fuelPrices\<close> (gasoline, diesel, LPG) costs its
  city and highway consumption at that price.
\<close>

lemma conventional_annual_cost:
  "fuelPrices ui (fuelType car) = Some unitPrice \<Longrightarrow>
     annualFuelCost (carResult ui k annualCityKm annualHighwayKm car)
       = annualCityKm / Num 100 * cityConsumptionLiters car * unitPrice
         + annualHighwayKm / Num 100 * highwayConsumptionLiters car * unitPrice"
  by (cases "fuelType car") (simp_all add: carResult_def carAnnualFuelCost_def Let_def)

text \<open>
  The key \<^verbatim>\<open>'hibrido'\<close> has an entry in \<^verbatim>\<open>purchasePrices\<close> and none in
  \<^verbatim>\<open>fuelPrices\<close>: the price read for a non-plug-in hybrid is \<^verbatim>\<open>undefined\<close>, and its
  annual fuel cost is \<open>NaN\<close> whatever the inputs.
\<close>

lemma hibrido_annual_cost_NaN:
  "fuelType car = hibrido \<Longrightarrow>
     annualFuelCost (carResult ui k annualCityKm annualHighwayKm car) = NaN"
  by (cases "annualCityKm / Num 100 * cityConsumptionLiters car";
      cases "annualHighwayKm / Num 100 * highwayConsumptionLiters car")
     (simp_all add: carResult_def carAnnualFuelCost_def Let_def)

text \<open>
  C1. A gasoline, diesel, LPG or non-plug-in hybrid record should cost
  \<open>annualCityKm / 100 * cityConsumption * unitPrice
    + annualHighwayKm / 100 * highwayConsumption * unitPrice\<close>, the price being the
  gasoline price for the hybrid: 1664 for the sample hybrid under the initial form values.
  The program computes \<open>NaN\<close> for it.
\<close>

theorem hibrido_cost_evaluation:
  "fuelType sampleHEV = hibrido
   \<and> annualFuelCost (carResult defaultInput (Num 20800) (Num 10400) (Num 10400) sampleHEV) = NaN
   \<and> Num 10400 / Num 100 * cityConsumptionLiters sampleHEV * priceGasoline defaultInput
       + Num 10400 / Num 100 * highwayConsumptionLiters sampleHEV * priceGasoline defaultInput
       = Num 1664
   \<and> map annualFuelCost (calculate Mixed defaultInput [sampleHEV]) = [NaN]"
  by (simp add: carResult_def carAnnualFuelCost_def Let_def defaultInput_def sampleHEV_def
      calculate_def calculatedResults_def amortizeAll_def annualDistances_def)

section \<open>Amortization against the gasoline baseline\<close>

lemma carResult_amortization: "amortizationYears (carResult ui k c h car) = None"
  by (simp add: carResult_def Let_def)

lemma calculatedResults_amortization:
  "r \<in> set (calculatedResults p ui data) \<Longrightarrow> amortizationYears r = None"
  by (auto simp: calculatedResults_def carResult_amortization split: prod.splits)

lemma calculatedResults_names:
  "map name (calculatedResults p ui data) = map vtype data"
  by (auto simp: calculatedResults_def carResult_def Let_def split: prod.splits)

lemma payback_positive:
  assumes "pr > (pg::number)" "ag > (ar::number)"
  shows "\<exists>y. (pr - pg) / (ag - ar) = Num y \<and> 0 < y"
  using assms by (cases pr; cases pg; cases ag; cases ar) auto

lemma amortize_years:
  "amortizationYears r0 = None \<Longrightarrow>
   amortizationYears (amortize g r0) =
     (if name r0 \<noteq> Gasolina \<and> purchasePrice r0 > purchasePrice g
         \<and> annualFuelCost g > annualFuelCost r0
      then Some ((purchasePrice r0 - purchasePrice g) / (annualFuelCost g - annualFuelCost r0))
      else None)"
  by (simp add: amortize_def Let_def number_gt_diff)

text \<open>
  C5. The baseline is the first result named Gasolina, and there is one exactly when a
  consumption record of that name is present. The amortization of a result is non-null
  exactly when there is a baseline, the result is not named Gasolina, its purchase price is
  strictly above the baseline's and the baseline's annual fuel cost is strictly above its own;
  it is then the price difference divided by the annual saving. In every other case,
  without a gasoline record or with no annual saving, it is null. That a non-null value is a
  positive number is a fact of the exact arithmetic of the model: a double quotient can
  overflow to infinity or underflow to zero at inputs near the largest double.
\<close>

theorem amortization_rule:
  "(\<forall>r \<in> set (calculate p ui data).
      amortizationYears r =
        (case find (\<lambda>x. name x = Gasolina) (calculatedResults p ui data) of
           None \<Rightarrow> None
         | Some baseline \<Rightarrow>
             if name r \<noteq> Gasolina \<and> purchasePrice r > purchasePrice baseline
                \<and> annualFuelCost baseline > annualFuelCost r
             then Some ((purchasePrice r - purchasePrice baseline)
                        / (annualFuelCost baseline - annualFuelCost r))
             else None)
      \<and> (\<forall>v. amortizationYears r = Some v \<longrightarrow> (\<exists>y. v = Num y \<and> 0 < y)))
   \<and> ((find (\<lambda>x. name x = Gasolina) (calculatedResults p ui data) = None)
        = (\<forall>car \<in> set data. vtype car \<noteq> Gasolina))"
proof (intro conjI ballI)
  fix r assume "r \<in> set (calculate p ui data)"
  then have r: "r \<in> set (amortizeAll (calculatedResults p ui data))"
    by (simp add: calculate_def set_sortByCost)
  show eq: "amortizationYears r =
        (case find (\<lambda>x. name x = Gasolina) (calculatedResults p ui data) of
           None \<Rightarrow> None
         | Some baseline \<Rightarrow>
             if name r \<noteq> Gasolina \<and> purchasePrice r > purchasePrice baseline
                \<and> annualFuelCost baseline > annualFuelCost r
             then Some ((purchasePrice r - purchasePrice baseline)
                        / (annualFuelCost baseline - annualFuelCost r))
             else None)"
  proof (cases "find (\<lambda>x. name x = Gasolina) (calculatedResults p ui data)")
    case None
    with r show ?thesis
      by (simp add: amortizeAll_def calculatedResults_amortization)
  next
    case (Some g)
    with r obtain r0 where r0: "r0 \<in> set (calculatedResults p ui data)" "r = amortize g r0"
      by (auto simp: amortizeAll_def)
    then have "amortizationYears r0 = None"
      by (simp add: calculatedResults_amortization)
    from amortize_years[OF this, of g] show ?thesis
      by (simp add: Some r0 amortize_fields)
  qed
  show "\<forall>v. amortizationYears r = Some v \<longrightarrow> (\<exists>y. v = Num y \<and> 0 < y)"
    unfolding eq using payback_positive
    by (auto split: option.splits if_splits)
next
  have "(find (\<lambda>x. name x = Gasolina) (calculatedResults p ui data) = None)
      = (\<forall>n \<in> set (map name (calculatedResults p ui data)). n \<noteq> Gasolina)"
    by (auto simp: find_None_iff)
  then show "(find (\<lambda>x. name x = Gasolina) (calculatedResults p ui data) = None)
        = (\<forall>car \<in> set data. vtype car \<noteq> Gasolina)"
    unfolding calculatedResults_names by auto
qed
theorem amortization_rule_witness:
  "hd (calculate Mixed defaultInput [sampleGasolina, sampleDiesel])
     \<in> set (calculate Mixed defaultInput [sampleGasolina, sampleDiesel])
   \<and> name (hd (calculate Mixed defaultInput [sampleGasolina, sampleDiesel])) = Diesel
   \<and> amortizationYears (hd (calculate Mixed defaultInput [sampleGasolina, sampleDiesel]))
       = Some ((Num 27000 - Num 25000) / (Num 2080 - Num 1638))
   \<and> sampleGasolina \<in> set [sampleGasolina, sampleDiesel] \<and> vtype sampleGasolina = Gasolina"
  using amortization_rule [of Mixed defaultInput "[sampleGasolina, sampleDiesel]"]
  by (simp add: eval_defs)

section \<open>Ranking\<close>

lemma number_le_cases:
  "(a \<le> (b::number)) = (\<exists>x y. a = Num x \<and> b = Num y \<and> x \<le> y)"
  by (cases a; cases b) auto

lemma sortCompare_le:
  "totalCost x = Num a \<Longrightarrow> totalCost y = Num b \<Longrightarrow> (sortCompare x y \<le> 0) = (a \<le> b)"
  by simp

lemma sorted_insertByCost:
  assumes "totalCost x \<noteq> NaN" "\<forall>y \<in> set ys. totalCost y \<noteq> NaN" "sortedByTotalCost ys"
  shows "sortedByTotalCost (insertByCost x ys)"
  using assms
proof (induction ys)
  case Nil
  then show ?case by (simp add: sortedByTotalCost_def)
next
  case (Cons y ys)
  obtain a b where ab: "totalCost x = Num a" "totalCost y = Num b"
    using Cons.prems by (cases "totalCost x"; cases "totalCost y") auto
  show ?case
  proof (cases "a \<le> b")
    case True
    have "\<forall>z \<in> set ys. totalCost x \<le> totalCost z"
    proof
      fix z assume "z \<in> set ys"
      with Cons.prems(3) have "totalCost y \<le> totalCost z"
        by (simp add: sortedByTotalCost_def)
      with ab True show "totalCost x \<le> totalCost z"
        by (auto simp: number_le_cases)
    qed
    with True ab Cons.prems(3) show ?thesis
      by (simp add: sortedByTotalCost_def)
  next
    case False
    have IH: "sortedByTotalCost (insertByCost x ys)"
      using Cons by (simp add: sortedByTotalCost_def)
    have "\<forall>z \<in> set (insertByCost x ys). totalCost y \<le> totalCost z"
      using Cons.prems(3) False ab by (auto simp: set_insertByCost sortedByTotalCost_def)
    with False ab IH show ?thesis
      by (simp add: sortedByTotalCost_def)
  qed
qed

lemma sorted_sortByCost:
  "\<forall>r \<in> set rs. totalCost r \<noteq> NaN \<Longrightarrow> sortedByTotalCost (sortByCost rs)"
proof (induction rs)
  case Nil
  then show ?case by (simp add: sortedByTotalCost_def)
next
  case (Cons r rs)
  then show ?case
    by (simp add: sorted_insertByCost set_sortByCost)
qed

lemma amortizeAll_totals: "map totalCost (amortizeAll rs) = map totalCost rs"
  by (simp add: amortizeAll_def amortize_fields split: option.splits)

text \<open>Without a NaN among the totals the results are in non-decreasing order of total cost.\<close>

lemma calculate_sorted:
  assumes "\<forall>r \<in> set (calculatedResults p ui data). totalCost r \<noteq> NaN"
  shows "sortedByTotalCost (calculate p ui data)"
proof -
  have "\<forall>r \<in> set (amortizeAll (calculatedResults p ui data)). totalCost r \<noteq> NaN"
  proof
    fix r assume "r \<in> set (amortizeAll (calculatedResults p ui data))"
    from amortizeAll_elem[OF this] assms show "totalCost r \<noteq> NaN"
      by auto
  qed
  then show ?thesis
    unfolding calculate_def by (rule sorted_sortByCost)
qed

lemma bestResult_first: "rs \<noteq> [] \<Longrightarrow> bestResult (Some rs) = Some (hd rs)"
  by (cases rs) (simp_all add: bestResult_def)

lemma length_insertByCost: "length (insertByCost x xs) = Suc (length xs)"
  by (induction xs) auto

lemma length_sortByCost: "length (sortByCost xs) = length xs"
  by (induction xs) (auto simp: length_insertByCost)

lemma length_calculate: "length (calculate p ui data) = length data"
proof -
  have "length (amortizeAll (calculatedResults p ui data))
      = length (map totalCost (amortizeAll (calculatedResults p ui data)))"
    by simp
  also have "\<dots> = length (calculatedResults p ui data)"
    by (simp only: amortizeAll_totals length_map)
  also have "\<dots> = length data"
    by (simp add: calculatedResults_def split: prod.splits)
  finally show ?thesis
    by (simp add: calculate_def length_sortByCost)
qed

text \<open>No order of a list of two or more results with a NaN total is non-decreasing.\<close>

lemma NaN_total_unsorted:
  assumes "r \<in> set rs" "totalCost r = NaN" "2 \<le> length rs"
  shows "\<not> sortedByTotalCost rs"
proof
  assume s: "sortedByTotalCost rs"
  from assms(1) obtain i where i: "i < length rs" "rs ! i = r"
    by (auto simp: in_set_conv_nth)
  from assms(3) i(1) obtain j where j: "j < length rs" "j \<noteq> i"
  proof (cases "i = 0")
    case True
    with assms(3) show ?thesis using that[of 1] by simp
  next
    case False
    with i(1) show ?thesis using that[of 0] by (cases rs) auto
  qed
  then consider "i < j" | "j < i" by linarith
  then show False
  proof cases
    case 1
    with s j have "totalCost (rs ! i) \<le> totalCost (rs ! j)"
      by (simp add: sortedByTotalCost_def sorted_wrt_iff_nth_less)
    with i assms(2) show False by simp
  next
    case 2
    with s i(1) have "totalCost (rs ! j) \<le> totalCost (rs ! i)"
      by (simp add: sortedByTotalCost_def sorted_wrt_iff_nth_less)
    with i assms(2) show False by (cases "totalCost (rs ! j)") simp_all
  qed
qed

text \<open>
  C6. For a non-empty list of consumption records the results should be in non-decreasing
  order of total cost, the first being the best option. With a gasoline, a non-plug-in
  hybrid and a diesel record under the initial form values, the totals come out as
  39560, NaN, 38466: not in order, and the result shown as best is not the cheapest.
\<close>

theorem hibrido_breaks_ranking:
  "map name (calculate Mixed defaultInput [sampleGasolina, sampleHEV, sampleDiesel])
     = [Gasolina, HibridoHEV, Diesel]
   \<and> map totalCost (calculate Mixed defaultInput [sampleGasolina, sampleHEV, sampleDiesel])
     = [Num 39560, NaN, Num 38466]
   \<and> \<not> sortedByTotalCost (calculate Mixed defaultInput [sampleGasolina, sampleHEV, sampleDiesel])
   \<and> map_option name
       (bestResult (Some (calculate Mixed defaultInput [sampleGasolina, sampleHEV, sampleDiesel])))
     = Some Gasolina"
  by (simp add: eval_defs sortedByTotalCost_def bestResult_def)

section \<open>Total cost against purchase price\<close>

lemma nonneg_iff: "(Num 0 \<le> a) = (\<exists>x. a = Num x \<and> 0 \<le> x)"
  by (cases a) auto

lemma nonneg_times: "Num 0 \<le> a \<Longrightarrow> Num 0 \<le> b \<Longrightarrow> Num 0 \<le> a * b"
  by (auto simp: nonneg_iff)

lemma nonneg_plus: "Num 0 \<le> a \<Longrightarrow> Num 0 \<le> b \<Longrightarrow> Num 0 \<le> a + b"
  by (auto simp: nonneg_iff)

lemma nonneg_percent: "Num 0 \<le> a \<Longrightarrow> Num 0 \<le> a / Num 100"
  by (cases a) auto

lemma nonneg_adds: "Num 0 \<le> a \<Longrightarrow> Num 0 \<le> p \<Longrightarrow> p \<le> p + a"
  by (auto simp: nonneg_iff)

lemma preset_nonneg: "Num 0 \<le> city (presetConfig p) \<and> Num 0 \<le> highway (presetConfig p)"
  by (cases p) simp_all

lemma annualDistances_nonneg:
  assumes "Num 0 \<le> weekdayCommuteKm ui" "Num 0 \<le> weekendTripKm ui"
    and "annualDistances (presetConfig p) ui = (k, c, h)"
  shows "Num 0 \<le> c \<and> Num 0 \<le> h"
proof (cases "estimatedAnnualKm ui > Num 0")
  case True
  then have "Num 0 \<le> estimatedAnnualKm ui"
    by (cases "estimatedAnnualKm ui") auto
  with True assms(3) preset_nonneg[of p] show ?thesis
    by (auto simp: annualDistances_def Let_def nonneg_times)
next
  case False
  have two: "Num 0 \<le> Num 2" "Num 0 \<le> Num 5" "Num 0 \<le> Num 52" by simp_all
  from False assms preset_nonneg[of p] two show ?thesis
    by (auto simp: annualDistances_def Let_def intro!: nonneg_times nonneg_plus)
qed

lemma carAnnualFuelCost_nonneg:
  assumes "Num 0 \<le> c" "Num 0 \<le> h" "fuelType car \<noteq> hibrido"
    and "Num 0 \<le> priceGasoline ui" "Num 0 \<le> priceDiesel ui" "Num 0 \<le> priceLPG ui"
        "Num 0 \<le> priceElectricity ui"
    and "Num 0 \<le> cityConsumptionLiters car" "Num 0 \<le> highwayConsumptionLiters car"
        "Num 0 \<le> cityConsumptionKwh car"
  shows "Num 0 \<le> carAnnualFuelCost ui c h car"
  using assms
  by (cases "fuelType car")
     (auto simp: carAnnualFuelCost_def Let_def intro!: nonneg_times nonneg_plus nonneg_percent)

text \<open>
  With non-negative distances, consumptions and prices and a horizon of at least one year,
  every result whose record is not a non-plug-in hybrid costs at least its purchase price,
  in the exact arithmetic of the model (products that overflow the double format aside).
\<close>

lemma total_cost_ge_purchase:
  assumes r: "r \<in> set (calculate p ui data)"
    and dist: "Num 0 \<le> weekdayCommuteKm ui" "Num 0 \<le> weekendTripKm ui"
    and prices: "Num 0 \<le> priceGasoline ui" "Num 0 \<le> priceDiesel ui" "Num 0 \<le> priceLPG ui"
        "Num 0 \<le> priceElectricity ui"
    and purchase: "\<forall>ft. Num 0 \<le> purchasePrices ui ft"
    and horizon: "Num 1 \<le> years ui"
    and cars: "\<forall>car \<in> set data. fuelType car \<noteq> hibrido \<and> Num 0 \<le> cityConsumptionLiters car
         \<and> Num 0 \<le> highwayConsumptionLiters car \<and> Num 0 \<le> cityConsumptionKwh car"
  shows "totalCost r \<ge> purchasePrice r"
proof -
  from r obtain car k c h where car: "car \<in> set data"
    and d: "annualDistances (presetConfig p) ui = (k, c, h)"
    and t: "totalCost r = totalCost (carResult ui k c h car)"
    and pp: "purchasePrice r = purchasePrice (carResult ui k c h car)"
    by (rule calculate_elem)
  from annualDistances_nonneg[OF dist d] have ch: "Num 0 \<le> c" "Num 0 \<le> h" by simp_all
  from cars car have "Num 0 \<le> carAnnualFuelCost ui c h car"
    by (intro carAnnualFuelCost_nonneg ch prices) auto
  moreover from horizon have "Num 0 \<le> years ui"
    by (cases "years ui") auto
  ultimately have "Num 0 \<le> carAnnualFuelCost ui c h car * years ui"
    by (rule nonneg_times)
  then have "purchasePrices ui (fuelType car)
      \<le> purchasePrices ui (fuelType car) + carAnnualFuelCost ui c h car * years ui"
    using purchase by (intro nonneg_adds) auto
  then show ?thesis
    by (simp add: t pp carResult_def Let_def)
qed

text \<open>
  C7. For valid inputs (non-negative distances, consumptions and prices, a horizon of at
  least one year) every result should have a total cost of at least its purchase price.
  Under the initial form values the result of a non-plug-in hybrid record has the purchase
  price 30000 and the total cost NaN, which is not at least 30000.
\<close>

theorem hibrido_total_cost_evaluation:
  "map name (calculate Mixed defaultInput [sampleHEV]) = [HibridoHEV]
   \<and> map purchasePrice (calculate Mixed defaultInput [sampleHEV]) = [Num 30000]
   \<and> map totalCost (calculate Mixed defaultInput [sampleHEV]) = [NaN]
   \<and> \<not> (totalCost (hd (calculate Mixed defaultInput [sampleHEV]))
          \<ge> purchasePrice (hd (calculate Mixed defaultInput [sampleHEV])))"
  by (simp add: eval_defs)

section \<open>Validation before the calculation\<close>

lemma map_of_fold_update:
  "map_of (fold (\<lambda>f e. if P f then AList.update f m e else e) fs e0) k
     = (if k \<in> set fs \<and> P k then Some m else map_of e0 k)"
  by (induction fs arbitrary: e0) (auto simp: update_conv')

text \<open>The error recorded for each field.\<close>

lemma map_of_validationErrors:
  "map_of (validationErrors ui) f =
     (if f = F_years \<and> years ui < Num 1 then Some AtLeastOneYear
      else if f \<in> set nonNegativeFields \<and> fieldValue ui f < Num 0 then Some CannotBeNegative
      else if f \<in> set positiveFields \<and> fieldValue ui f \<le> Num 0 then Some MustBePositive
      else None)"
  by (simp add: validationErrors_def Let_def map_of_fold_update update_conv')

lemma validationErrors_empty:
  "(validationErrors ui = []) =
     (\<not> years ui < Num 1
      \<and> (\<forall>f \<in> set nonNegativeFields. \<not> fieldValue ui f < Num 0)
      \<and> (\<forall>f \<in> set positiveFields. \<not> fieldValue ui f \<le> Num 0))"
proof -
  have "(validationErrors ui = []) = (\<forall>f. map_of (validationErrors ui) f = None)"
    by (metis map_of_eq_empty_iff)
  also have "\<dots> = (\<not> years ui < Num 1
      \<and> (\<forall>f \<in> set nonNegativeFields. \<not> fieldValue ui f < Num 0)
      \<and> (\<forall>f \<in> set positiveFields. \<not> fieldValue ui f \<le> Num 0))"
    unfolding map_of_validationErrors by (auto split: if_splits)
  finally show ?thesis .
qed

lemma handleSubmit_rejected:
  "validationErrors (userInput st) \<noteq> [] \<Longrightarrow>
     handleSubmit fetched advice st = (st\<lparr>formErrors := validationErrors (userInput st)\<rparr>, [])"
  by (simp add: handleSubmit_def validateForm_def Let_def)

lemma handleSubmit_accepted:
  "validationErrors (userInput st) = [] \<Longrightarrow>
     snd (handleSubmit fetched advice st) \<noteq> [] \<and>
     hd (snd (handleSubmit fetched advice st)) = GetFuelConsumptionData \<and>
     formErrors (fst (handleSubmit fetched advice st)) = []"
  by (simp add: handleSubmit_def validateForm_def Let_def split: sum.splits)

text \<open>
  C8. On a submission, a fuel, electricity or purchase price that is not positive, a distance
  that is negative and a horizon below one year each record an error under the key of that
  field, and then the handler stops there: it calls no external service, the consumption
  fetch included, and changes nothing but the recorded errors. The calculation starts, with
  the consumption fetch as its first call, exactly when no error was recorded, which is
  exactly when no field is at fault.
\<close>

theorem validation_gate:
  "(\<forall>f \<in> set positiveFields. fieldValue (userInput st) f \<le> Num 0 \<longrightarrow>
       map_of (formErrors (fst (handleSubmit fetched advice st))) f = Some MustBePositive
       \<and> handleSubmit fetched advice st
           = (st\<lparr>formErrors := validationErrors (userInput st)\<rparr>, []))
   \<and> (\<forall>f \<in> set nonNegativeFields. fieldValue (userInput st) f < Num 0 \<longrightarrow>
       map_of (formErrors (fst (handleSubmit fetched advice st))) f = Some CannotBeNegative
       \<and> handleSubmit fetched advice st
           = (st\<lparr>formErrors := validationErrors (userInput st)\<rparr>, []))
   \<and> (years (userInput st) < Num 1 \<longrightarrow>
       map_of (formErrors (fst (handleSubmit fetched advice st))) F_years = Some AtLeastOneYear
       \<and> handleSubmit fetched advice st
           = (st\<lparr>formErrors := validationErrors (userInput st)\<rparr>, []))
   \<and> (snd (handleSubmit fetched advice st) \<noteq> []
        \<longleftrightarrow> formErrors (fst (handleSubmit fetched advice st)) = [])
   \<and> (snd (handleSubmit fetched advice st) \<noteq> []
        \<longrightarrow> hd (snd (handleSubmit fetched advice st)) = GetFuelConsumptionData)
   \<and> (formErrors (fst (handleSubmit fetched advice st)) = []
        \<longleftrightarrow> \<not> years (userInput st) < Num 1
          \<and> (\<forall>f \<in> set nonNegativeFields. \<not> fieldValue (userInput st) f < Num 0)
          \<and> (\<forall>f \<in> set positiveFields. \<not> fieldValue (userInput st) f \<le> Num 0))"
proof -
  let ?E = "validationErrors (userInput st)"
  let ?R = "handleSubmit fetched advice st"
  have fe: "formErrors (fst ?R) = ?E"
    by (cases "?E = []") (simp_all add: handleSubmit_rejected handleSubmit_accepted)
  have rej: "?E \<noteq> [] \<Longrightarrow> ?R = (st\<lparr>formErrors := ?E\<rparr>, [])"
    by (rule handleSubmit_rejected)
  have calls: "(snd ?R \<noteq> []) = (?E = [])"
    using handleSubmit_accepted[of st fetched advice] handleSubmit_rejected[of st fetched advice]
    by (cases "?E = []") simp_all
  have pos: "f \<in> set positiveFields \<Longrightarrow> fieldValue (userInput st) f \<le> Num 0 \<Longrightarrow>
      map_of ?E f = Some MustBePositive \<and> ?E \<noteq> []" for f
    using validationErrors_empty[of "userInput st"]
    by (auto simp: map_of_validationErrors positiveFields_def nonNegativeFields_def)
  have neg: "f \<in> set nonNegativeFields \<Longrightarrow> fieldValue (userInput st) f < Num 0 \<Longrightarrow>
      map_of ?E f = Some CannotBeNegative \<and> ?E \<noteq> []" for f
    using validationErrors_empty[of "userInput st"]
    by (auto simp: map_of_validationErrors positiveFields_def nonNegativeFields_def)
  have yrs: "years (userInput st) < Num 1 \<Longrightarrow>
      map_of ?E F_years = Some AtLeastOneYear \<and> ?E \<noteq> []"
    using validationErrors_empty[of "userInput st"]
    by (auto simp: map_of_validationErrors)
  show ?thesis
    unfolding fe calls
    using pos neg yrs rej handleSubmit_accepted[of st fetched advice]
      validationErrors_empty[of "userInput st"]
    by blast
qed
theorem validation_gate_witness:
  "F_priceDiesel \<in> set positiveFields
   \<and> fieldValue (userInput (initialState\<lparr>userInput := defaultInput\<lparr>priceDiesel := Num 0\<rparr>\<rparr>))
        F_priceDiesel \<le> Num 0
   \<and> formErrors (fst (handleSubmit (Inr [sampleGasolina]) (Inr [])
        (initialState\<lparr>userInput := defaultInput\<lparr>priceDiesel := Num 0\<rparr>\<rparr>)))
       = [(F_priceDiesel, MustBePositive)]
   \<and> snd (handleSubmit (Inr [sampleGasolina]) (Inr [])
        (initialState\<lparr>userInput := defaultInput\<lparr>priceDiesel := Num 0\<rparr>\<rparr>)) = []
   \<and> F_weekendTripKm \<in> set nonNegativeFields
   \<and> formErrors (fst (handleSubmit (Inr [sampleGasolina]) (Inr [])
        (initialState\<lparr>userInput := defaultInput\<lparr>weekendTripKm := Num (- 5), years := Num 0.5\<rparr>\<rparr>)))
       = [(F_weekendTripKm, CannotBeNegative), (F_years, AtLeastOneYear)]
   \<and> snd (handleSubmit (Inr [sampleGasolina]) (Inr [])
        (initialState\<lparr>userInput := defaultInput\<lparr>weekendTripKm := Num (- 5), years := Num 0.5\<rparr>\<rparr>)) = []
   \<and> formErrors (fst (handleSubmit (Inr [sampleGasolina]) (Inr []) initialState)) = []
   \<and> snd (handleSubmit (Inr [sampleGasolina]) (Inr []) initialState)
       = [GetFuelConsumptionData, GetRecommendation]"
  using validation_gate [of "initialState\<lparr>userInput := defaultInput\<lparr>priceDiesel := Num 0\<rparr>\<rparr>"
      "Inr [sampleGasolina]" "Inr []"]
    validation_gate [of "initialState\<lparr>userInput := defaultInput\<lparr>weekendTripKm := Num (- 5), years := Num 0.5\<rparr>\<rparr>"
      "Inr [sampleGasolina]" "Inr []"]
    validation_gate [of initialState "Inr [sampleGasolina]" "Inr []"]
  by (simp add: form_defs defaultInput_def Let_def)

section \<open>The ownership horizon\<close>











text \<open>
  A fractional horizon is stopped by the form, before validation: the input mismatches its
  step and no submit event is fired.
\<close>

lemma fractional_horizon_not_submitted:
  "years (userInput (session [Change (NumberInput F_years (Num 2.5))])) = Num 2.5
   \<and> \<not> formValid (session [Change (NumberInput F_years (Num 2.5))])
   \<and> submitForm fetched advice (session [Change (NumberInput F_years (Num 2.5))])
       = (session [Change (NumberInput F_years (Num 2.5))], [])"
  by (simp add: session_defs initialState_def defaultInput_def Let_def)

section \<open>Route estimation\<close>

text \<open>
  C10. With an empty home or work address the handler sets an error message and makes no
  external call. Otherwise it makes the one call for the route details and, when that
  call succeeds with a distance and a city percentage, the weekday commute becomes the
  rounded distance and the preset becomes urban exactly when the percentage is at least 70,
  highway exactly when it is at most 30, and mixed otherwise.
\<close>

theorem route_estimation:
  "(homeAddress st = [] \<or> workAddress st = [] \<longrightarrow>
      handleRouteCalculation route st = (st\<lparr>error := Some AddressesMissing\<rparr>, []))
   \<and> (homeAddress st \<noteq> [] \<and> workAddress st \<noteq> [] \<longrightarrow>
      snd (handleRouteCalculation route st) = [GetRouteDetails]
      \<and> (\<forall>distance cityPercentage. route = Inr (distance, cityPercentage) \<longrightarrow>
           weekdayCommuteKm (userInput (fst (handleRouteCalculation route st)))
             = mathRound distance
           \<and> (routePreset (fst (handleRouteCalculation route st)) = Urban
                \<longleftrightarrow> cityPercentage \<ge> Num 70)
           \<and> (routePreset (fst (handleRouteCalculation route st)) = Highway
                \<longleftrightarrow> cityPercentage \<le> Num 30)
           \<and> (routePreset (fst (handleRouteCalculation route st)) = Mixed
                \<longleftrightarrow> \<not> cityPercentage \<ge> Num 70 \<and> \<not> cityPercentage \<le> Num 30)
           \<and> error (fst (handleRouteCalculation route st)) = None))"
proof -
  have excl: "\<not> (c \<ge> Num 70 \<and> c \<le> Num 30)" for c
    by (cases c) auto
  show ?thesis
    using excl
    by (auto simp: handleRouteCalculation_def Let_def split: sum.splits)
qed

theorem route_estimation_witness:
  "handleRouteCalculation (Inr (Num 12.4, Num 85)) initialState
     = (initialState\<lparr>error := Some AddressesMissing\<rparr>, [])
   \<and> snd (handleRouteCalculation (Inr (Num 12.4, Num 85))
        (initialState\<lparr>homeAddress := ''A'', workAddress := ''B''\<rparr>)) = [GetRouteDetails]
   \<and> weekdayCommuteKm (userInput (fst (handleRouteCalculation (Inr (Num 12.4, Num 85))
        (initialState\<lparr>homeAddress := ''A'', workAddress := ''B''\<rparr>)))) = Num 12
   \<and> routePreset (fst (handleRouteCalculation (Inr (Num 12.4, Num 85))
        (initialState\<lparr>homeAddress := ''A'', workAddress := ''B''\<rparr>))) = Urban
   \<and> routePreset (fst (handleRouteCalculation (Inr (Num 12.4, Num 30))
        (initialState\<lparr>homeAddress := ''A'', workAddress := ''B''\<rparr>))) = Highway
   \<and> routePreset (fst (handleRouteCalculation (Inr (Num 12.4, Num 69))
        (initialState\<lparr>homeAddress := ''A'', workAddress := ''B''\<rparr>))) = Mixed"
  using route_estimation [of initialState "Inr (Num 12.4, Num 85)"]
    route_estimation [of "initialState\<lparr>homeAddress := ''A'', workAddress := ''B''\<rparr>"
      "Inr (Num 12.4, Num 85)"]
    route_estimation [of "initialState\<lparr>homeAddress := ''A'', workAddress := ''B''\<rparr>"
      "Inr (Num 12.4, Num 30)"]
    route_estimation [of "initialState\<lparr>homeAddress := ''A'', workAddress := ''B''\<rparr>"
      "Inr (Num 12.4, Num 69)"]
  by (simp add: initialState_def)

end
